theory Spec2Isabelle
  imports Main "HOL-Library.Word" "HOL-Library.Sublist"
begin

section \<open>Data model of the blocks-request handler\<close>

text \<open>
  The embedding follows \<^verbatim>\<open>sync/handler_blocks_request.go\<close>. Heights and counts are
  Go \<^verbatim>\<open>uint32\<close> values, so they are 32-bit words: subtraction wraps, and the
  conversion \<^verbatim>\<open>uint32(len(blocksData))\<close> is \<open>of_nat\<close>, which truncates.
\<close>

type_synonym uint32 = "32 word"
type_synonym peer_ID = string
type_synonym block_data = "8 word list"

text \<open>
  Modelled from the spec: the peer status type is declared outside the handler's file.
  The spec lists the five statuses; \<open>IsUnknown\<close> and \<open>IsKnown\<close> test for one of them.
\<close>

datatype StatusCode =
  StatusUnknown | StatusConnected | StatusKnown | StatusBanned | StatusDisconnected

definition IsUnknown :: "StatusCode \<Rightarrow> bool" where
  "IsUnknown st = (st = StatusUnknown)"

definition IsKnown :: "StatusCode \<Rightarrow> bool" where
  "IsKnown st = (st = StatusKnown)"

datatype ResponseCode =
  ResponseCodeMoreBlocks | ResponseCodeNoMoreBlocks | ResponseCodeRejected | ResponseCodeSynced

record BlockCertificate =
  Height :: uint32
  cert_payload :: "8 word list"

record BlocksRequestMessage =
  SessionID :: uint32
  From :: uint32
  Count :: uint32

text \<open>
  The response message holds the six arguments of \<^verbatim>\<open>NewBlocksResponseMessage\<close>, in the
  order of the call: code, reason, session id, starting height, blocks, certificate.
  A \<^verbatim>\<open>nil\<close> slice is the empty list, a \<^verbatim>\<open>nil\<close> certificate is \<open>None\<close>.
\<close>

record BlocksResponseMessage =
  resp_code :: ResponseCode
  resp_reason :: string
  resp_sid :: uint32
  resp_height :: uint32
  resp_blocks :: "block_data list"
  resp_cert :: "BlockCertificate option"

definition NewBlocksResponseMessage ::
  "ResponseCode \<Rightarrow> string \<Rightarrow> uint32 \<Rightarrow> uint32 \<Rightarrow> block_data list \<Rightarrow>
   BlockCertificate option \<Rightarrow> BlocksResponseMessage" where
  "NewBlocksResponseMessage code reason sid height blocks cert =
     \<lparr>resp_code = code, resp_reason = reason, resp_sid = sid, resp_height = height,
      resp_blocks = blocks, resp_cert = cert\<rparr>"

record Config =
  NodeNetwork :: bool
  LatestBlockInterval :: uint32
  BlockPerMessage :: uint32

text \<open>
  The state facade as the handler consumes it: the tip height, the tip certificate and
  the store of committed blocks.
\<close>

record Facade =
  LastBlockHeight :: uint32
  LastCertificate :: BlockCertificate
  block_at :: "uint32 \<Rightarrow> block_data option"

record Peer =
  Status :: StatusCode
  ReceivedMessages :: nat
  InvalidMessages :: nat
  ReceivedBytes :: nat

record Session =
  session_peer :: peer_ID
  session_from :: uint32
  session_count :: uint32

datatype log_level = Trace | Debug | Info

text \<open>
  The synchronizer the handler embeds: configuration, peer set, state facade, the
  session table, the log and the messages handed to the network layer.
\<close>

record synchronizer =
  config :: Config
  peerSet :: "peer_ID \<rightharpoonup> Peer"
  state :: Facade
  sessions :: "uint32 \<rightharpoonup> Session"
  logger :: "(log_level \<times> string) list"
  outbound :: "(peer_ID \<times> BlocksResponseMessage) list"

text \<open>
  Modelled from the spec: \<^verbatim>\<open>GetPeerStatus\<close> is a method of the peer set, which is not
  in the handler's file. The spec: a lookup; absent peers are \<open>Unknown\<close>.
\<close>

definition GetPeerStatus :: "(peer_ID \<rightharpoonup> Peer) \<Rightarrow> peer_ID \<Rightarrow> StatusCode" where
  "GetPeerStatus ps pid = (case ps pid of None \<Rightarrow> StatusUnknown | Some p \<Rightarrow> Status p)"

text \<open>
  The methods the handler calls and whose bodies are outside its file are parameters
  of the model: the block reader \<^verbatim>\<open>prepareBlocks\<close>, the last requested height
  \<^verbatim>\<open>msg.To()\<close> and the three \<^verbatim>\<open>String()\<close> renderings.
\<close>

record deps =
  prepareBlocks :: "Facade \<Rightarrow> uint32 \<Rightarrow> uint32 \<Rightarrow> block_data list"
  To :: "BlocksRequestMessage \<Rightarrow> uint32"
  pid_String :: "peer_ID \<Rightarrow> string"
  status_String :: "StatusCode \<Rightarrow> string"
  code_String :: "ResponseCode \<Rightarrow> string"

section \<open>Rendering of heights in reason strings\<close>

text \<open>The verb \<^verbatim>\<open>%v\<close> of \<^verbatim>\<open>fmt.Sprintf\<close> prints a \<^verbatim>\<open>uint32\<close> in decimal.\<close>

definition digit_char :: "nat \<Rightarrow> char" where
  "digit_char n = ''0123456789'' ! n"

function show_nat :: "nat \<Rightarrow> string" where
  "show_nat n = (if n < 10 then [digit_char n] else show_nat (n div 10) @ [digit_char (n mod 10)])"
  by pat_completeness auto
termination
  by (relation "measure id") auto

declare show_nat.simps [simp del]

definition show_uint32 :: "uint32 \<Rightarrow> string" where
  "show_uint32 w = show_nat (unat w)"

section \<open>The handler\<close>

definition log_line :: "log_level \<Rightarrow> string \<Rightarrow> synchronizer \<Rightarrow> synchronizer" where
  "log_line lvl line s = s\<lparr>logger := logger s @ [(lvl, line)]\<rparr>"

text \<open>
  Modelled from the spec: \<^verbatim>\<open>sendTo\<close> is a method of the synchronizer, outside the
  handler's file. The spec: the unicast variant of packaging a message into a bundle and
  handing it to the network layer.
\<close>

definition sendTo :: "BlocksResponseMessage \<Rightarrow> peer_ID \<Rightarrow> synchronizer \<Rightarrow> synchronizer" where
  "sendTo msg to s = s\<lparr>outbound := outbound s @ [(to, msg)]\<rparr>"

definition respond :: "BlocksResponseMessage \<Rightarrow> peer_ID \<Rightarrow> synchronizer \<Rightarrow> synchronizer" where
  "respond msg to s =
     (if resp_code msg = ResponseCodeRejected
      then sendTo msg to (log_line Debug ''rejecting block request message'' s)
      else sendTo msg to (log_line Info ''responding block request message'' s))"

text \<open>
  The height window of a non-archival node. Go's \<^verbatim>\<open>&&\<close> evaluates its right operand
  only when the left one holds, so the subtraction sits in the \<open>then\<close> branch.
\<close>

definition height_not_acceptable :: "Config \<Rightarrow> uint32 \<Rightarrow> BlocksRequestMessage \<Rightarrow> bool" where
  "height_not_acceptable cfg ourHeight msg =
     (if ourHeight > LatestBlockInterval cfg
      then From msg < ourHeight - LatestBlockInterval cfg
      else False)"

text \<open>
  The same check with a subtraction that traps instead of wrapping: \<open>None\<close> is an
  underflow of \<^verbatim>\<open>ourHeight - LatestBlockInterval\<close>.
\<close>

definition checked_sub :: "uint32 \<Rightarrow> uint32 \<Rightarrow> uint32 option" where
  "checked_sub a b = (if a < b then None else Some (a - b))"

definition height_not_acceptable_checked ::
  "Config \<Rightarrow> uint32 \<Rightarrow> BlocksRequestMessage \<Rightarrow> bool option" where
  "height_not_acceptable_checked cfg ourHeight msg =
     (if ourHeight > LatestBlockInterval cfg
      then map_option (\<lambda>low. From msg < low) (checked_sub ourHeight (LatestBlockInterval cfg))
      else Some False)"

text \<open>
  The pagination loop \<^verbatim>\<open>for { ... }\<close>. It has no bound of its own, so it is a partial
  function: not returning is \<open>None\<close>.
\<close>

partial_function (option) sendBlocks ::
  "deps \<Rightarrow> BlocksRequestMessage \<Rightarrow> peer_ID \<Rightarrow> uint32 \<Rightarrow> uint32 \<Rightarrow> synchronizer \<Rightarrow>
   synchronizer option" where
  "sendBlocks d msg pid height count s =
     (let blockToRead = min (BlockPerMessage (config s)) count;
          blocksData = prepareBlocks d (state s) height blockToRead
      in if length blocksData = 0 then Some s
         else
           (let response = NewBlocksResponseMessage ResponseCodeMoreBlocks
                  (code_String d ResponseCodeMoreBlocks) (SessionID msg) height blocksData None;
                s' = respond response pid s;
                height' = height + of_nat (length blocksData);
                count' = count - of_nat (length blocksData)
            in if count' \<le> 0 then Some s'
               else sendBlocks d msg pid height' count' s'))"

declare sendBlocks.simps [code]

definition ParseMessage ::
  "deps \<Rightarrow> BlocksRequestMessage \<Rightarrow> peer_ID \<Rightarrow> synchronizer \<Rightarrow> synchronizer option" where
  "ParseMessage d msg pid s0 =
     (let s = log_line Trace ''parsing BlocksRequest message'' s0;
          status = GetPeerStatus (peerSet s) pid
      in if IsUnknown status then
           Some (respond (NewBlocksResponseMessage ResponseCodeRejected
             (''unknown peer ('' @ pid_String d pid @ '')'') (SessionID msg) 0 [] None) pid s)
         else if \<not> IsKnown status then
           Some (respond (NewBlocksResponseMessage ResponseCodeRejected
             (''not handshaked ('' @ status_String d status @ '')'') (SessionID msg) 0 [] None) pid s)
         else
           (let ourHeight = LastBlockHeight (state s)
            in if \<not> NodeNetwork (config s) \<and> height_not_acceptable (config s) ourHeight msg then
                 Some (respond (NewBlocksResponseMessage ResponseCodeRejected
                   (''the request height is not acceptable: '' @ show_uint32 (From msg))
                   (SessionID msg) 0 [] None) pid s)
               else if From msg > ourHeight then
                 Some (respond (NewBlocksResponseMessage ResponseCodeRejected
                   (''don't have requested blocks: '' @ show_uint32 (From msg))
                   (SessionID msg) 0 [] None) pid s)
               else if Count msg > LatestBlockInterval (config s) then
                 Some (respond (NewBlocksResponseMessage ResponseCodeRejected
                   (''too many blocks requested: '' @ show_uint32 (From msg) @ ''-''
                      @ show_uint32 (Count msg))
                   (SessionID msg) 0 [] None) pid s)
               else
                 (case sendBlocks d msg pid (From msg) (Count msg) s of
                    None \<Rightarrow> None
                  | Some s1 \<Rightarrow>
                      if To d msg \<ge> ourHeight then
                        (let lastCert = LastCertificate (state s1)
                         in Some (respond (NewBlocksResponseMessage ResponseCodeSynced
                              (code_String d ResponseCodeSynced) (SessionID msg)
                              (Height lastCert) [] (Some lastCert)) pid s1))
                      else
                        Some (respond (NewBlocksResponseMessage ResponseCodeNoMoreBlocks
                          (code_String d ResponseCodeNoMoreBlocks) (SessionID msg) 0 [] None)
                          pid s1))))"

section \<open>The parameters, as the spec describes them\<close>

text \<open>
  Modelled from the spec: \<^verbatim>\<open>prepareBlocks\<close> is a method of the synchronizer, outside
  the handler's file. The spec: read up to \<open>n\<close> consecutive blocks from the store starting
  at \<open>h\<close>. The contract used below is the bound alone: a read of \<open>n\<close> blocks returns at
  most \<open>n\<close> of them.
\<close>

definition reads_at_most :: "deps \<Rightarrow> bool" where
  "reads_at_most d = (\<forall>f h n. length (prepareBlocks d f h n) \<le> unat n)"

text \<open>
  Modelled from the spec: a reader that meets the description, taking consecutive blocks
  from the store until a height is missing or \<open>n\<close> blocks are read.
\<close>

fun read_blocks :: "(uint32 \<Rightarrow> block_data option) \<Rightarrow> uint32 \<Rightarrow> nat \<Rightarrow> block_data list" where
  "read_blocks st h n =
     (if n = 0 then []
      else case st h of None \<Rightarrow> [] | Some b \<Rightarrow> b # read_blocks st (h + 1) (n - 1))"

declare read_blocks.simps [simp del]

text \<open>
  Modelled from the spec: \<^verbatim>\<open>msg.To()\<close> is a method of the request message, outside
  the handler's file. The spec leaves its formula open between the last requested
  height, \<open>from + count - 1\<close>, and \<open>from + count\<close>; both candidates are defined, in
  \<^verbatim>\<open>uint32\<close> arithmetic.
\<close>

definition To_last :: "BlocksRequestMessage \<Rightarrow> uint32" where
  "To_last msg = From msg + Count msg - 1"

definition To_end :: "BlocksRequestMessage \<Rightarrow> uint32" where
  "To_end msg = From msg + Count msg"

section \<open>The responses and the preconditions, named\<close>

definition Rejected_response :: "uint32 \<Rightarrow> string \<Rightarrow> BlocksResponseMessage" where
  "Rejected_response sid reason =
     \<lparr>resp_code = ResponseCodeRejected, resp_reason = reason, resp_sid = sid, resp_height = 0,
      resp_blocks = [], resp_cert = None\<rparr>"

definition MoreBlocks_response ::
  "deps \<Rightarrow> uint32 \<Rightarrow> uint32 \<Rightarrow> block_data list \<Rightarrow> BlocksResponseMessage" where
  "MoreBlocks_response d sid h blocks =
     \<lparr>resp_code = ResponseCodeMoreBlocks, resp_reason = code_String d ResponseCodeMoreBlocks,
      resp_sid = sid, resp_height = h, resp_blocks = blocks, resp_cert = None\<rparr>"

definition Synced_response :: "deps \<Rightarrow> uint32 \<Rightarrow> BlockCertificate \<Rightarrow> BlocksResponseMessage" where
  "Synced_response d sid cert =
     \<lparr>resp_code = ResponseCodeSynced, resp_reason = code_String d ResponseCodeSynced,
      resp_sid = sid, resp_height = Height cert, resp_blocks = [], resp_cert = Some cert\<rparr>"

definition NoMoreBlocks_response :: "deps \<Rightarrow> uint32 \<Rightarrow> BlocksResponseMessage" where
  "NoMoreBlocks_response d sid =
     \<lparr>resp_code = ResponseCodeNoMoreBlocks, resp_reason = code_String d ResponseCodeNoMoreBlocks,
      resp_sid = sid, resp_height = 0, resp_blocks = [], resp_cert = None\<rparr>"

text \<open>
  The five preconditions in the order of the spec, over unbounded naturals: the third
  one fails when \<open>from\<close> lies below \<open>local_height - LatestBlockInterval\<close>, that is when
  \<open>from + LatestBlockInterval < local_height\<close>.
\<close>

datatype precondition = PeerNotUnknown | PeerKnown | HeightWindow | HaveBlocks | CountLimit

definition failed_check :: "BlocksRequestMessage \<Rightarrow> peer_ID \<Rightarrow> synchronizer \<Rightarrow> precondition option" where
  "failed_check msg pid s =
     (let status = GetPeerStatus (peerSet s) pid;
          local_height = unat (LastBlockHeight (state s));
          interval = unat (LatestBlockInterval (config s))
      in if status = StatusUnknown then Some PeerNotUnknown
         else if status \<noteq> StatusKnown then Some PeerKnown
         else if \<not> NodeNetwork (config s) \<and> unat (From msg) + interval < local_height
           then Some HeightWindow
         else if local_height < unat (From msg) then Some HaveBlocks
         else if interval < unat (Count msg) then Some CountLimit
         else None)"

definition accepted :: "BlocksRequestMessage \<Rightarrow> peer_ID \<Rightarrow> synchronizer \<Rightarrow> bool" where
  "accepted msg pid s = (failed_check msg pid s = None)"

text \<open>The text each rejection starts with, and the whole reason the handler formats.\<close>

fun reason_text :: "precondition \<Rightarrow> string" where
  "reason_text PeerNotUnknown = ''unknown peer''"
| "reason_text PeerKnown = ''not handshaked''"
| "reason_text HeightWindow = ''the request height is not acceptable''"
| "reason_text HaveBlocks = ''don't have requested blocks''"
| "reason_text CountLimit = ''too many blocks requested''"

fun rejection_reason ::
  "deps \<Rightarrow> BlocksRequestMessage \<Rightarrow> peer_ID \<Rightarrow> synchronizer \<Rightarrow> precondition \<Rightarrow> string" where
  "rejection_reason d msg pid s PeerNotUnknown = ''unknown peer ('' @ pid_String d pid @ '')''"
| "rejection_reason d msg pid s PeerKnown =
     ''not handshaked ('' @ status_String d (GetPeerStatus (peerSet s) pid) @ '')''"
| "rejection_reason d msg pid s HeightWindow =
     ''the request height is not acceptable: '' @ show_uint32 (From msg)"
| "rejection_reason d msg pid s HaveBlocks =
     ''don't have requested blocks: '' @ show_uint32 (From msg)"
| "rejection_reason d msg pid s CountLimit =
     ''too many blocks requested: '' @ show_uint32 (From msg) @ ''-'' @ show_uint32 (Count msg)"

text \<open>
  What the pagination loop sends, as a relation on the list of its responses: every
  response is the \<open>MoreBlocks\<close> message of one non-empty read, and the list ends where
  the remaining count reaches zero or the next read is empty.
\<close>

fun loop_sends ::
  "deps \<Rightarrow> Config \<Rightarrow> Facade \<Rightarrow> uint32 \<Rightarrow> uint32 \<Rightarrow> uint32 \<Rightarrow> BlocksResponseMessage list \<Rightarrow> bool" where
  "loop_sends d cfg st sid h c [] = (prepareBlocks d st h (min (BlockPerMessage cfg) c) = [])"
| "loop_sends d cfg st sid h c (r # rs) =
     (let blocks = prepareBlocks d st h (min (BlockPerMessage cfg) c)
      in blocks \<noteq> [] \<and> r = MoreBlocks_response d sid h blocks \<and>
         (if c - of_nat (length blocks) \<le> 0 then rs = []
          else loop_sends d cfg st sid (h + of_nat (length blocks))
                 (c - of_nat (length blocks)) rs))"

definition total_blocks :: "BlocksResponseMessage list \<Rightarrow> nat" where
  "total_blocks rs = sum_list (map (\<lambda>r. length (resp_blocks r)) rs)"

text \<open>
  Pagination in the words of the spec: a page starts at \<open>h\<close>, carries at most
  \<open>min(BlockPerMessage, remaining)\<close> blocks, and the next page starts where it ends, with
  the remaining count reduced by its blocks.
\<close>

fun paginated :: "uint32 \<Rightarrow> uint32 \<Rightarrow> uint32 \<Rightarrow> BlocksResponseMessage list \<Rightarrow> bool" where
  "paginated bpm h remaining [] = True"
| "paginated bpm h remaining (r # rs) =
     (resp_height r = h \<and> length (resp_blocks r) \<le> unat (min bpm remaining) \<and>
      paginated bpm (h + of_nat (length (resp_blocks r)))
        (remaining - of_nat (length (resp_blocks r))) rs)"

text \<open>
  What any run of the loop that returns has done: it leaves the synchronizer as it was
  except for \<open>MoreBlocks\<close> responses to the peer, each with the session id of the
  request and at least one block.
\<close>

definition pages_only :: "BlocksRequestMessage \<Rightarrow> peer_ID \<Rightarrow> synchronizer \<Rightarrow> synchronizer \<Rightarrow> bool" where
  "pages_only msg pid s s' \<longleftrightarrow>
     config s' = config s \<and> peerSet s' = peerSet s \<and> state s' = state s \<and>
     sessions s' = sessions s \<and>
     (\<exists>rs. outbound s' = outbound s @ map (Pair pid) rs \<and>
        (\<forall>r \<in> set rs. resp_code r = ResponseCodeMoreBlocks \<and>
           resp_sid r = SessionID msg \<and> resp_blocks r \<noteq> []))"

section \<open>Concrete nodes and requests\<close>

text \<open>
  The inputs of the worked examples: renderings for the codes and statuses, the reader
  of the spec over the store, a node whose store holds the blocks \<open>1\<close> to \<open>tip\<close> with
  the default configuration of the spec (\<open>LatestBlockInterval = 720\<close>,
  \<open>BlockPerMessage = 10\<close>), one handshaked peer, and a request with session id 7.
\<close>

definition code_name :: "ResponseCode \<Rightarrow> string" where
  "code_name c =
     (case c of ResponseCodeMoreBlocks \<Rightarrow> ''more-blocks''
      | ResponseCodeNoMoreBlocks \<Rightarrow> ''no-more-blocks''
      | ResponseCodeRejected \<Rightarrow> ''rejected''
      | ResponseCodeSynced \<Rightarrow> ''synced'')"

definition status_name :: "StatusCode \<Rightarrow> string" where
  "status_name c =
     (case c of StatusUnknown \<Rightarrow> ''unknown'' | StatusConnected \<Rightarrow> ''connected''
      | StatusKnown \<Rightarrow> ''known'' | StatusBanned \<Rightarrow> ''banned''
      | StatusDisconnected \<Rightarrow> ''disconnected'')"

definition deps_with :: "(BlocksRequestMessage \<Rightarrow> uint32) \<Rightarrow> deps" where
  "deps_with to =
     \<lparr>prepareBlocks = (\<lambda>f h n. read_blocks (block_at f) h (unat n)), To = to,
      pid_String = (\<lambda>p. p), status_String = status_name, code_String = code_name\<rparr>"

definition known_peer :: Peer where
  "known_peer =
     \<lparr>Status = StatusKnown, ReceivedMessages = 0, InvalidMessages = 0, ReceivedBytes = 0\<rparr>"

definition node_at :: "bool \<Rightarrow> uint32 \<Rightarrow> synchronizer" where
  "node_at archival tip =
     \<lparr>config = \<lparr>NodeNetwork = archival, LatestBlockInterval = 720, BlockPerMessage = 10\<rparr>,
      peerSet = [''bob'' \<mapsto> known_peer],
      state = \<lparr>LastBlockHeight = tip, LastCertificate = \<lparr>Height = tip, cert_payload = []\<rparr>,
               block_at = (\<lambda>h. if 1 \<le> h \<and> h \<le> tip then Some [ucast h] else None)\<rparr>,
      sessions = Map.empty, logger = [], outbound = []\<rparr>"

definition request :: "uint32 \<Rightarrow> uint32 \<Rightarrow> BlocksRequestMessage" where
  "request from count = \<lparr>SessionID = 7, From = from, Count = count\<rparr>"

section \<open>Effects of the helpers\<close>

lemma log_line_fields [simp]:
  "config (log_line l t s) = config s" "peerSet (log_line l t s) = peerSet s"
  "state (log_line l t s) = state s" "sessions (log_line l t s) = sessions s"
  "outbound (log_line l t s) = outbound s"
  by (simp_all add: log_line_def)

lemma respond_fields [simp]:
  "config (respond m p s) = config s" "peerSet (respond m p s) = peerSet s"
  "state (respond m p s) = state s" "sessions (respond m p s) = sessions s"
  "outbound (respond m p s) = outbound s @ [(p, m)]"
  by (simp_all add: respond_def sendTo_def)

lemma New_Rejected:
  "NewBlocksResponseMessage ResponseCodeRejected reason sid 0 [] None = Rejected_response sid reason"
  by (simp add: NewBlocksResponseMessage_def Rejected_response_def)

lemma New_MoreBlocks:
  "NewBlocksResponseMessage ResponseCodeMoreBlocks (code_String d ResponseCodeMoreBlocks) sid h bs None
     = MoreBlocks_response d sid h bs"
  by (simp add: NewBlocksResponseMessage_def MoreBlocks_response_def)

lemma New_Synced:
  "NewBlocksResponseMessage ResponseCodeSynced (code_String d ResponseCodeSynced) sid (Height c) []
     (Some c) = Synced_response d sid c"
  by (simp add: NewBlocksResponseMessage_def Synced_response_def)

lemma New_NoMoreBlocks:
  "NewBlocksResponseMessage ResponseCodeNoMoreBlocks (code_String d ResponseCodeNoMoreBlocks) sid 0 []
     None = NoMoreBlocks_response d sid"
  by (simp add: NewBlocksResponseMessage_def NoMoreBlocks_response_def)

section \<open>Word arithmetic of the handler\<close>

lemma unat_sub_read:
  fixes c :: uint32
  assumes "0 < n" "n \<le> unat c"
  shows "unat (c - of_nat n) = unat c - n"
proof -
  have "unat c < 2 ^ 32" using unsigned_less [of c, where ?'a = nat] by simp
  then have "n < 2 ^ 32" using assms(2) by arith
  then have u: "unat (of_nat n :: uint32) = n" by (simp add: unat_of_nat)
  then have "(of_nat n :: uint32) \<le> c" using assms(2) by (simp add: word_le_nat_alt)
  then show ?thesis using u by (simp add: unat_sub)
qed

lemma height_not_acceptable_iff:
  "height_not_acceptable cfg h msg \<longleftrightarrow> unat (From msg) + unat (LatestBlockInterval cfg) < unat h"
proof (cases "LatestBlockInterval cfg < h")
  case True
  then have le: "LatestBlockInterval cfg \<le> h" by simp
  have "unat (h - LatestBlockInterval cfg) = unat h - unat (LatestBlockInterval cfg)"
    using le by (rule unat_sub)
  moreover have "unat (LatestBlockInterval cfg) < unat h"
    using True by (simp add: word_less_nat_alt)
  ultimately show ?thesis
    using True by (auto simp add: height_not_acceptable_def word_less_nat_alt)
next
  case False
  then have "unat h \<le> unat (LatestBlockInterval cfg)"
    by (simp add: word_less_nat_alt)
  then show ?thesis using False by (simp add: height_not_acceptable_def)
qed

section \<open>The preconditions\<close>

lemma ParseMessage_rejected:
  assumes "failed_check msg pid s = Some k"
  shows "ParseMessage d msg pid s =
    Some (respond (Rejected_response (SessionID msg) (rejection_reason d msg pid s k)) pid
            (log_line Trace ''parsing BlocksRequest message'' s))"
  using assms
  by (auto simp add: failed_check_def ParseMessage_def Let_def IsUnknown_def IsKnown_def
      New_Rejected height_not_acceptable_iff word_less_nat_alt word_le_nat_alt
      split: if_splits)

lemma ParseMessage_passes:
  assumes "failed_check msg pid s = None"
  shows "ParseMessage d msg pid s =
    (case sendBlocks d msg pid (From msg) (Count msg)
            (log_line Trace ''parsing BlocksRequest message'' s) of
       None \<Rightarrow> None
     | Some s1 \<Rightarrow>
         Some (respond
           (if LastBlockHeight (state s) \<le> To d msg
            then Synced_response d (SessionID msg) (LastCertificate (state s1))
            else NoMoreBlocks_response d (SessionID msg)) pid s1))"
  using assms
  by (auto simp add: failed_check_def ParseMessage_def Let_def IsUnknown_def IsKnown_def
      New_Synced New_NoMoreBlocks height_not_acceptable_iff word_less_nat_alt word_le_nat_alt
      split: if_splits option.splits)

section \<open>The pagination loop\<close>

lemma sendBlocks_returns:
  assumes "reads_at_most d"
  shows "\<exists>s' rs. sendBlocks d msg pid h c s = Some s' \<and>
           config s' = config s \<and> peerSet s' = peerSet s \<and> state s' = state s \<and>
           sessions s' = sessions s \<and> outbound s' = outbound s @ map (Pair pid) rs \<and>
           loop_sends d (config s) (state s) (SessionID msg) h c rs"
proof (induction "unat c" arbitrary: c h s rule: less_induct)
  case less
  define blocks where "blocks = prepareBlocks d (state s) h (min (BlockPerMessage (config s)) c)"
  define r where "r = MoreBlocks_response d (SessionID msg) h blocks"
  show ?case
  proof (cases "blocks = []")
    case True
    then have "sendBlocks d msg pid h c s = Some s"
      by (subst sendBlocks.simps) (simp add: blocks_def)
    moreover have "loop_sends d (config s) (state s) (SessionID msg) h c []"
      using True by (simp add: blocks_def)
    ultimately show ?thesis by (intro exI [of _ s] exI [of _ "[]"]) simp
  next
    case False
    have len: "length blocks \<le> unat c"
    proof -
      have "length blocks \<le> unat (min (BlockPerMessage (config s)) c)"
        using assms by (simp add: reads_at_most_def blocks_def)
      also have "\<dots> \<le> unat c" by (simp add: word_le_nat_alt [symmetric])
      finally show ?thesis .
    qed
    have pos: "0 < length blocks" using False by simp
    have dec: "unat (c - of_nat (length blocks)) = unat c - length blocks"
      using unat_sub_read [OF pos len] .
    show ?thesis
    proof (cases "c - of_nat (length blocks) \<le> 0")
      case True
      have "sendBlocks d msg pid h c s = Some (respond r pid s)"
        using False True
        by (subst sendBlocks.simps) (simp add: blocks_def r_def Let_def New_MoreBlocks)
      moreover have "loop_sends d (config s) (state s) (SessionID msg) h c [r]"
        using False True by (simp add: blocks_def r_def Let_def)
      ultimately show ?thesis
        by (intro exI [of _ "respond r pid s"] exI [of _ "[r]"]) simp
    next
      case nz: False
      let ?s = "respond r pid s"
      let ?h = "h + of_nat (length blocks)"
      let ?c = "c - of_nat (length blocks)"
      have "unat c - length blocks < unat c" using pos len by arith
      then have "unat ?c < unat c" using dec by simp
      from less [OF this, of ?h ?s]
      obtain s' rs where rec: "sendBlocks d msg pid ?h ?c ?s = Some s'"
        and fr: "config s' = config s" "peerSet s' = peerSet s" "state s' = state s"
          "sessions s' = sessions s"
        and ob: "outbound s' = outbound ?s @ map (Pair pid) rs"
        and ls: "loop_sends d (config s) (state s) (SessionID msg) ?h ?c rs"
        by auto
      have "sendBlocks d msg pid h c s = Some s'"
        using False nz rec
        by (subst sendBlocks.simps) (simp add: blocks_def r_def Let_def New_MoreBlocks)
      moreover have "loop_sends d (config s) (state s) (SessionID msg) h c (r # rs)"
        using False nz ls by (simp add: blocks_def r_def Let_def)
      moreover have "outbound s' = outbound s @ map (Pair pid) (r # rs)"
        using ob by simp
      ultimately show ?thesis using fr
        by (intro exI [of _ s'] exI [of _ "r # rs"]) simp
    qed
  qed
qed

lemma loop_sends_pages:
  "loop_sends d cfg st sid h c rs \<Longrightarrow> r \<in> set rs \<Longrightarrow>
     resp_code r = ResponseCodeMoreBlocks \<and> resp_sid r = sid \<and> resp_blocks r \<noteq> [] \<and>
     resp_cert r = None"
proof (induction rs arbitrary: h c)
  case Nil
  then show ?case by simp
next
  case (Cons a rs)
  then show ?case
    by (auto simp add: Let_def MoreBlocks_response_def split: if_splits)
qed

lemma read_fits:
  assumes "reads_at_most d"
  shows "length (prepareBlocks d st h (min bpm c)) \<le> unat (min bpm c)"
    and "length (prepareBlocks d st h (min bpm c)) \<le> unat c"
proof -
  show a: "length (prepareBlocks d st h (min bpm c)) \<le> unat (min bpm c)"
    using assms by (simp add: reads_at_most_def)
  have "unat (min bpm c) \<le> unat c" by (simp add: word_le_nat_alt [symmetric])
  with a show "length (prepareBlocks d st h (min bpm c)) \<le> unat c" by simp
qed

lemma loop_sends_paginated:
  assumes "reads_at_most d"
  shows "loop_sends d cfg st sid h c rs \<Longrightarrow> paginated (BlockPerMessage cfg) h c rs"
proof (induction rs arbitrary: h c)
  case Nil
  then show ?case by simp
next
  case (Cons a rs)
  then show ?case
    using read_fits(1) [OF assms, of st h "BlockPerMessage cfg" c]
    by (auto simp add: Let_def MoreBlocks_response_def split: if_splits)
qed

lemma loop_sends_total:
  assumes "reads_at_most d"
  shows "loop_sends d cfg st sid h c rs \<Longrightarrow>
     total_blocks rs \<le> unat c \<and>
     (c - of_nat (total_blocks rs) = 0 \<or>
      prepareBlocks d st (h + of_nat (total_blocks rs))
        (min (BlockPerMessage cfg) (c - of_nat (total_blocks rs))) = [])"
proof (induction rs arbitrary: h c)
  case Nil
  then show ?case by (simp add: total_blocks_def)
next
  case (Cons a rs)
  define blocks where "blocks = prepareBlocks d st h (min (BlockPerMessage cfg) c)"
  have a: "a = MoreBlocks_response d sid h blocks" and ne: "blocks \<noteq> []"
    using Cons.prems by (simp_all add: Let_def blocks_def)
  have len: "length blocks \<le> unat c"
    unfolding blocks_def using read_fits(2) [OF assms] .
  have pos: "0 < length blocks" using ne by simp
  have dec: "unat (c - of_nat (length blocks)) = unat c - length blocks"
    using unat_sub_read [OF pos len] .
  have tot: "total_blocks (a # rs) = length blocks + total_blocks rs"
    by (simp add: total_blocks_def a MoreBlocks_response_def)
  show ?case
  proof (cases "c - of_nat (length blocks) \<le> 0")
    case True
    then have "rs = []" using Cons.prems by (simp add: Let_def blocks_def)
    then show ?thesis using True len tot by (simp add: total_blocks_def)
  next
    case False
    then have "loop_sends d cfg st sid (h + of_nat (length blocks)) (c - of_nat (length blocks)) rs"
      using Cons.prems by (simp add: Let_def blocks_def)
    from Cons.IH [OF this]
    have ih1: "total_blocks rs \<le> unat (c - of_nat (length blocks))"
      and ih2: "c - of_nat (length blocks) - of_nat (total_blocks rs) = 0 \<or>
         prepareBlocks d st (h + of_nat (length blocks) + of_nat (total_blocks rs))
          (min (BlockPerMessage cfg) (c - of_nat (length blocks) - of_nat (total_blocks rs))) = []"
      by simp_all
    have t: "total_blocks (a # rs) \<le> unat c" using ih1 dec len tot by simp
    have e1: "c - of_nat (total_blocks (a # rs)) = c - of_nat (length blocks) - of_nat (total_blocks rs)"
      by (simp add: tot)
    have e2: "h + of_nat (total_blocks (a # rs)) = h + of_nat (length blocks) + of_nat (total_blocks rs)"
      by (simp add: tot)
    show ?thesis unfolding e1 e2 using t ih2 by blast
  qed
qed

lemma pages_only_refl: "pages_only msg pid s s"
  unfolding pages_only_def by (intro conjI exI [of _ "[]"]) simp_all

lemma pages_only_step:
  assumes "pages_only msg pid (respond r pid s) s'"
    and "resp_code r = ResponseCodeMoreBlocks" "resp_sid r = SessionID msg" "resp_blocks r \<noteq> []"
  shows "pages_only msg pid s s'"
proof -
  from assms(1) obtain rs where fr: "config s' = config s" "peerSet s' = peerSet s"
      "state s' = state s" "sessions s' = sessions s"
    and ob: "outbound s' = outbound (respond r pid s) @ map (Pair pid) rs"
    and al: "\<forall>x \<in> set rs. resp_code x = ResponseCodeMoreBlocks \<and>
               resp_sid x = SessionID msg \<and> resp_blocks x \<noteq> []"
    unfolding pages_only_def by auto
  have "outbound s' = outbound s @ map (Pair pid) (r # rs)" using ob by simp
  moreover have "\<forall>x \<in> set (r # rs). resp_code x = ResponseCodeMoreBlocks \<and>
               resp_sid x = SessionID msg \<and> resp_blocks x \<noteq> []"
    using al assms(2-4) by simp
  ultimately show ?thesis unfolding pages_only_def using fr by blast
qed

lemma sendBlocks_partial:
  assumes ret: "sendBlocks d0 msg0 pid0 h0 c0 s0 = Some s0'"
  shows "pages_only msg0 pid0 s0 s0'"
proof (rule sendBlocks.raw_induct
    [where P = "\<lambda>d msg pid h c s s'. pages_only msg pid s s'", OF _ ret])
  fix sb :: "deps \<Rightarrow> BlocksRequestMessage \<Rightarrow> peer_ID \<Rightarrow> uint32 \<Rightarrow> uint32 \<Rightarrow> synchronizer \<Rightarrow>
      synchronizer option"
    and d :: deps and msg :: BlocksRequestMessage and pid :: peer_ID and h c :: uint32
    and s s' :: synchronizer
  assume IH: "\<And>d msg pid h c s y. sb d msg pid h c s = Some y \<Longrightarrow> pages_only msg pid s y"
  assume body: "(let blockToRead = min (BlockPerMessage (config s)) c;
          blocksData = prepareBlocks d (state s) h blockToRead
      in if length blocksData = 0 then Some s
         else
           (let response = NewBlocksResponseMessage ResponseCodeMoreBlocks
                  (code_String d ResponseCodeMoreBlocks) (SessionID msg) h blocksData None;
                s' = respond response pid s;
                height' = h + of_nat (length blocksData);
                count' = c - of_nat (length blocksData)
            in if count' \<le> 0 then Some s'
               else sb d msg pid height' count' s')) = Some s'"
  define blocks where "blocks = prepareBlocks d (state s) h (min (BlockPerMessage (config s)) c)"
  define r where "r = MoreBlocks_response d (SessionID msg) h blocks"
  have r: "resp_code r = ResponseCodeMoreBlocks" "resp_sid r = SessionID msg"
    "resp_blocks r = blocks"
    by (simp_all add: r_def MoreBlocks_response_def)
  show "pages_only msg pid s s'"
  proof (cases "blocks = []")
    case True
    then have "s' = s" using body by (simp add: blocks_def)
    then show ?thesis by (simp add: pages_only_refl)
  next
    case False
    have one: "pages_only msg pid (respond r pid s) (respond r pid s)"
      by (rule pages_only_refl)
    show ?thesis
    proof (cases "c - of_nat (length blocks) \<le> 0")
      case True
      then have "s' = respond r pid s"
        using body False by (simp add: blocks_def r_def Let_def New_MoreBlocks)
      then show ?thesis using pages_only_step [OF one] r False by simp
    next
      case nz: False
      then have rec: "sb d msg pid (h + of_nat (length blocks))
          (c - of_nat (length blocks)) (respond r pid s) = Some s'"
        using body False by (simp add: blocks_def r_def Let_def New_MoreBlocks)
      have "pages_only msg pid (respond r pid s) s'"
        using IH [OF rec] .
      then show ?thesis using pages_only_step r False by simp
    qed
  qed
qed

section \<open>What the handler sends\<close>

lemma ParseMessage_rejected_sends:
  assumes "failed_check msg pid s = Some k"
  shows "\<exists>s'. ParseMessage d msg pid s = Some s' \<and>
           config s' = config s \<and> peerSet s' = peerSet s \<and> state s' = state s \<and>
           sessions s' = sessions s \<and>
           outbound s' = outbound s @
             [(pid, Rejected_response (SessionID msg) (rejection_reason d msg pid s k))]"
  by (simp add: ParseMessage_rejected [OF assms])

lemma ParseMessage_accepted_sends:
  assumes "reads_at_most d" and "failed_check msg pid s = None"
  shows "\<exists>s' pages. ParseMessage d msg pid s = Some s' \<and>
           config s' = config s \<and> peerSet s' = peerSet s \<and> state s' = state s \<and>
           sessions s' = sessions s \<and>
           outbound s' = outbound s @ map (Pair pid)
             (pages @ [if LastBlockHeight (state s) \<le> To d msg
                       then Synced_response d (SessionID msg) (LastCertificate (state s))
                       else NoMoreBlocks_response d (SessionID msg)]) \<and>
           loop_sends d (config s) (state s) (SessionID msg) (From msg) (Count msg) pages"
proof -
  let ?s = "log_line Trace ''parsing BlocksRequest message'' s"
  from sendBlocks_returns [OF assms(1), of msg pid "From msg" "Count msg" ?s]
  obtain s1 pages where run: "sendBlocks d msg pid (From msg) (Count msg) ?s = Some s1"
    and fr: "config s1 = config s" "peerSet s1 = peerSet s" "state s1 = state s"
      "sessions s1 = sessions s"
    and ob: "outbound s1 = outbound s @ map (Pair pid) pages"
    and ls: "loop_sends d (config s) (state s) (SessionID msg) (From msg) (Count msg) pages"
    by auto
  let ?t = "if LastBlockHeight (state s) \<le> To d msg
            then Synced_response d (SessionID msg) (LastCertificate (state s))
            else NoMoreBlocks_response d (SessionID msg)"
  have "ParseMessage d msg pid s = Some (respond ?t pid s1)"
    by (simp add: ParseMessage_passes [OF assms(2)] run fr)
  moreover have "outbound (respond ?t pid s1) = outbound s @ map (Pair pid) (pages @ [?t])"
    by (simp add: ob)
  ultimately show ?thesis using fr ls
    by (intro exI [of _ "respond ?t pid s1"] exI [of _ pages]) simp
qed

lemma paginated_hd: "paginated bpm h c rs \<Longrightarrow> rs \<noteq> [] \<Longrightarrow> resp_height (hd rs) = h"
  by (cases rs) simp_all

lemma paginated_next:
  "paginated bpm h c rs \<Longrightarrow> Suc i < length rs \<Longrightarrow>
     resp_height (rs ! Suc i) = resp_height (rs ! i) + of_nat (length (resp_blocks (rs ! i)))"
proof (induction rs arbitrary: h c i)
  case Nil
  then show ?case by simp
next
  case (Cons a rs)
  show ?case
  proof (cases i)
    case 0
    then have "rs \<noteq> []" using Cons.prems(2) by auto
    moreover have tl: "paginated bpm (h + of_nat (length (resp_blocks a)))
        (c - of_nat (length (resp_blocks a))) rs"
      using Cons.prems(1) by simp
    ultimately have "resp_height (hd rs) = h + of_nat (length (resp_blocks a))"
      by (rule paginated_hd [rotated])
    moreover have "resp_height a = h" using Cons.prems(1) by simp
    moreover have "hd rs = rs ! 0" using \<open>rs \<noteq> []\<close> by (simp add: hd_conv_nth)
    ultimately show ?thesis using 0 by simp
  next
    case (Suc j)
    then have "Suc j < length rs" using Cons.prems(2) by simp
    moreover have "paginated bpm (h + of_nat (length (resp_blocks a)))
        (c - of_nat (length (resp_blocks a))) rs"
      using Cons.prems(1) by simp
    ultimately show ?thesis using Cons.IH Suc by simp
  qed
qed

lemma read_blocks_length: "length (read_blocks st h n) \<le> n"
proof (induction n arbitrary: h)
  case 0
  then show ?case by (simp add: read_blocks.simps)
next
  case (Suc n)
  show ?case
    using Suc [of "h + 1"] by (subst read_blocks.simps) (simp split: option.split)
qed

lemma reads_at_most_deps_with: "reads_at_most (deps_with to)"
  by (simp add: reads_at_most_def deps_with_def read_blocks_length)

lemma show_uint32_100: "show_uint32 100 = ''100''"
  by (simp add: show_uint32_def show_nat.simps digit_char_def)

lemma show_uint32_5: "show_uint32 5 = ''5''"
  by (simp add: show_uint32_def show_nat.simps digit_char_def)

lemmas example_defs =
  node_at_def request_def deps_with_def known_peer_def GetPeerStatus_def code_name_def
  status_name_def

lemmas handler_defs =
  ParseMessage_def IsUnknown_def IsKnown_def height_not_acceptable_def
  NewBlocksResponseMessage_def respond_def sendTo_def log_line_def Let_def

section \<open>Claims about rejected requests\<close>

text \<open>
  C1 (amended). The handler evaluates the five preconditions in the order of the spec.
  When one fails, the first that fails decides the outcome: the handler returns, and it
  has sent exactly one response, a \<open>Rejected\<close> message with the session id of the request,
  no blocks and no certificate, whose reason starts with the text of that precondition:
  "unknown peer", "not handshaked", "the request height is not acceptable",
  "don't have requested blocks" or "too many blocks requested".
\<close>

theorem first_failed_check_rejects:
  assumes "failed_check msg pid s = Some k"
  shows "\<exists>s'. ParseMessage d msg pid s = Some s' \<and>
           outbound s' = outbound s @
             [(pid, \<lparr>resp_code = ResponseCodeRejected,
                     resp_reason = rejection_reason d msg pid s k,
                     resp_sid = SessionID msg, resp_height = 0, resp_blocks = [],
                     resp_cert = None\<rparr>)] \<and>
           prefix (reason_text k) (rejection_reason d msg pid s k)"
proof -
  have "prefix (reason_text k) (rejection_reason d msg pid s k)"
    by (cases k) simp_all
  then show ?thesis
    using ParseMessage_rejected_sends [OF assms, of d] by (auto simp add: Rejected_response_def)
qed

theorem first_failed_check_rejects_witness:
  "failed_check (request 100 10) ''bob'' (node_at False 5000) = Some HeightWindow \<and>
   (\<exists>s'. ParseMessage (deps_with To_last) (request 100 10) ''bob'' (node_at False 5000) = Some s' \<and>
      outbound s' = outbound (node_at False 5000) @
        [(''bob'', \<lparr>resp_code = ResponseCodeRejected,
            resp_reason = rejection_reason (deps_with To_last) (request 100 10) ''bob''
               (node_at False 5000) HeightWindow,
            resp_sid = SessionID (request 100 10), resp_height = 0, resp_blocks = [],
            resp_cert = None\<rparr>)] \<and>
      prefix (reason_text HeightWindow)
        (rejection_reason (deps_with To_last) (request 100 10) ''bob'' (node_at False 5000)
           HeightWindow))"
proof -
  have h: "failed_check (request 100 10) ''bob'' (node_at False 5000) = Some HeightWindow"
    by (simp add: failed_check_def example_defs)
  from first_failed_check_rejects [OF h, of "deps_with To_last"] h show ?thesis by simp
qed

text \<open>
  C1 as stated fails: a non-archival node at height 5000 rejects the request for height
  100 with the reason "the request height is not acceptable: 100", which does not contain
  the text "request height not acceptable" that the claim names.
\<close>

theorem height_reason_text_counterexample:
  "failed_check (request 100 10) ''bob'' (node_at False 5000) = Some HeightWindow \<and>
   map_option outbound
     (ParseMessage (deps_with To_last) (request 100 10) ''bob'' (node_at False 5000)) =
     Some [(''bob'', \<lparr>resp_code = ResponseCodeRejected,
             resp_reason = ''the request height is not acceptable: 100'',
             resp_sid = 7, resp_height = 0, resp_blocks = [], resp_cert = None\<rparr>)] \<and>
   \<not> sublist ''request height not acceptable'' ''the request height is not acceptable: 100''"
proof -
  have "failed_check (request 100 10) ''bob'' (node_at False 5000) = Some HeightWindow"
    by (simp add: failed_check_def example_defs)
  moreover have "map_option outbound
     (ParseMessage (deps_with To_last) (request 100 10) ''bob'' (node_at False 5000)) =
     Some [(''bob'', \<lparr>resp_code = ResponseCodeRejected,
             resp_reason = ''the request height is not acceptable: 100'',
             resp_sid = 7, resp_height = 0, resp_blocks = [], resp_cert = None\<rparr>)]"
    by (simp add: handler_defs example_defs show_uint32_100)
  moreover have
    "\<not> sublist ''request height not acceptable'' ''the request height is not acceptable: 100''"
    by code_simp
  ultimately show ?thesis by blast
qed

text \<open>
  C5 (amended). A request from a \<open>Known\<close> peer to a non-archival node whose \<open>from\<close> lies
  below \<open>local_height - LatestBlockInterval\<close> is answered by one \<open>Rejected\<close> response
  whose reason is "the request height is not acceptable: " followed by \<open>from\<close> in decimal.
\<close>

theorem below_window_rejected:
  assumes "GetPeerStatus (peerSet s) pid = StatusKnown"
    and "\<not> NodeNetwork (config s)"
    and "unat (From msg) + unat (LatestBlockInterval (config s)) < unat (LastBlockHeight (state s))"
  shows "\<exists>s'. ParseMessage d msg pid s = Some s' \<and>
           outbound s' = outbound s @
             [(pid, \<lparr>resp_code = ResponseCodeRejected,
                     resp_reason = ''the request height is not acceptable: '' @ show_uint32 (From msg),
                     resp_sid = SessionID msg, resp_height = 0, resp_blocks = [],
                     resp_cert = None\<rparr>)]"
proof -
  have "failed_check msg pid s = Some HeightWindow"
    using assms by (simp add: failed_check_def)
  from ParseMessage_rejected_sends [OF this, of d] show ?thesis
    by (auto simp add: Rejected_response_def)
qed

theorem below_window_rejected_witness:
  "GetPeerStatus (peerSet (node_at False 1000)) ''bob'' = StatusKnown \<and>
   \<not> NodeNetwork (config (node_at False 1000)) \<and>
   unat (From (request 5 3)) + unat (LatestBlockInterval (config (node_at False 1000)))
     < unat (LastBlockHeight (state (node_at False 1000))) \<and>
   (\<exists>s'. ParseMessage (deps_with To_last) (request 5 3) ''bob'' (node_at False 1000) = Some s' \<and>
      outbound s' = outbound (node_at False 1000) @
        [(''bob'', \<lparr>resp_code = ResponseCodeRejected,
            resp_reason = ''the request height is not acceptable: '' @ show_uint32 (From (request 5 3)),
            resp_sid = SessionID (request 5 3), resp_height = 0, resp_blocks = [],
            resp_cert = None\<rparr>)])"
proof -
  have h1: "GetPeerStatus (peerSet (node_at False 1000)) ''bob'' = StatusKnown"
    by (simp add: example_defs)
  have h2: "\<not> NodeNetwork (config (node_at False 1000))"
    by (simp add: example_defs)
  have h3: "unat (From (request 5 3)) + unat (LatestBlockInterval (config (node_at False 1000)))
     < unat (LastBlockHeight (state (node_at False 1000)))"
    by (simp add: example_defs)
  from below_window_rejected [OF h1 h2 h3, of "deps_with To_last"] h1 h2 h3
  show ?thesis by blast
qed

text \<open>
  C5 as stated fails: the reason of that rejection does not contain the text "request
  height not acceptable". A non-archival node at height 1000 answers the request for
  height 5 with "the request height is not acceptable: 5".
\<close>

theorem below_window_reason_counterexample:
  "GetPeerStatus (peerSet (node_at False 1000)) ''bob'' = StatusKnown \<and>
   \<not> NodeNetwork (config (node_at False 1000)) \<and>
   map_option outbound
     (ParseMessage (deps_with To_last) (request 5 3) ''bob'' (node_at False 1000)) =
     Some [(''bob'', \<lparr>resp_code = ResponseCodeRejected,
             resp_reason = ''the request height is not acceptable: 5'',
             resp_sid = 7, resp_height = 0, resp_blocks = [], resp_cert = None\<rparr>)] \<and>
   \<not> sublist ''request height not acceptable'' ''the request height is not acceptable: 5''"
proof -
  have "GetPeerStatus (peerSet (node_at False 1000)) ''bob'' = StatusKnown"
    by (simp add: example_defs)
  moreover have "\<not> NodeNetwork (config (node_at False 1000))"
    by (simp add: example_defs)
  moreover have "map_option outbound
     (ParseMessage (deps_with To_last) (request 5 3) ''bob'' (node_at False 1000)) =
     Some [(''bob'', \<lparr>resp_code = ResponseCodeRejected,
             resp_reason = ''the request height is not acceptable: 5'',
             resp_sid = 7, resp_height = 0, resp_blocks = [], resp_cert = None\<rparr>)]"
    by (simp add: handler_defs example_defs show_uint32_5)
  moreover have
    "\<not> sublist ''request height not acceptable'' ''the request height is not acceptable: 5''"
    by code_simp
  ultimately show ?thesis by blast
qed

section \<open>Claims about accepted requests\<close>

text \<open>
  C2. For an accepted request, with a reader that returns at most the number of blocks
  it is asked for, the handler returns and has sent a list of \<open>MoreBlocks\<close> pages followed
  by one response of another code. The first page starts at \<open>from\<close>; each next page
  starts at the previous start plus the number of blocks of the previous page; every page
  carries at least one block and at most \<open>min(BlockPerMessage, remaining)\<close> blocks; the
  pages end where the remaining count is zero or the next read is empty; and the blocks
  of all pages together are at most \<open>count\<close>.
\<close>

theorem pagination:
  assumes "reads_at_most d" and "accepted msg pid s"
  shows "\<exists>s' pages t. ParseMessage d msg pid s = Some s' \<and>
           outbound s' = outbound s @ map (Pair pid) (pages @ [t]) \<and>
           resp_code t \<noteq> ResponseCodeMoreBlocks \<and>
           (\<forall>r \<in> set pages. resp_code r = ResponseCodeMoreBlocks \<and> resp_blocks r \<noteq> []) \<and>
           (pages \<noteq> [] \<longrightarrow> resp_height (hd pages) = From msg) \<and>
           (\<forall>i. Suc i < length pages \<longrightarrow>
              resp_height (pages ! Suc i) =
                resp_height (pages ! i) + of_nat (length (resp_blocks (pages ! i)))) \<and>
           paginated (BlockPerMessage (config s)) (From msg) (Count msg) pages \<and>
           (Count msg - of_nat (total_blocks pages) = 0 \<or>
            prepareBlocks d (state s) (From msg + of_nat (total_blocks pages))
              (min (BlockPerMessage (config s)) (Count msg - of_nat (total_blocks pages))) = []) \<and>
           total_blocks pages \<le> unat (Count msg)"
proof -
  have fc: "failed_check msg pid s = None" using assms(2) by (simp add: accepted_def)
  let ?t = "if LastBlockHeight (state s) \<le> To d msg
            then Synced_response d (SessionID msg) (LastCertificate (state s))
            else NoMoreBlocks_response d (SessionID msg)"
  from ParseMessage_accepted_sends [OF assms(1) fc]
  obtain s' pages where run: "ParseMessage d msg pid s = Some s'"
    and ob: "outbound s' = outbound s @ map (Pair pid) (pages @ [?t])"
    and ls: "loop_sends d (config s) (state s) (SessionID msg) (From msg) (Count msg) pages"
    by blast
  have t: "resp_code ?t \<noteq> ResponseCodeMoreBlocks"
    by (simp add: Synced_response_def NoMoreBlocks_response_def)
  have pg: "paginated (BlockPerMessage (config s)) (From msg) (Count msg) pages"
    using loop_sends_paginated [OF assms(1) ls] .
  have mb: "\<forall>r \<in> set pages. resp_code r = ResponseCodeMoreBlocks \<and> resp_blocks r \<noteq> []"
    using loop_sends_pages [OF ls] by blast
  have hd: "pages \<noteq> [] \<longrightarrow> resp_height (hd pages) = From msg"
    using paginated_hd [OF pg] by blast
  have nx: "\<forall>i. Suc i < length pages \<longrightarrow>
              resp_height (pages ! Suc i) =
                resp_height (pages ! i) + of_nat (length (resp_blocks (pages ! i)))"
    using paginated_next [OF pg] by blast
  note tot = loop_sends_total [OF assms(1) ls]
  show ?thesis
    using run ob t mb hd nx pg tot by blast
qed

theorem pagination_witness:
  "reads_at_most (deps_with To_last) \<and> accepted (request 1 5) ''bob'' (node_at True 3) \<and>
   (\<exists>s' pages t.
      ParseMessage (deps_with To_last) (request 1 5) ''bob'' (node_at True 3) = Some s' \<and>
      outbound s' = outbound (node_at True 3) @ map (Pair ''bob'') (pages @ [t]) \<and>
      resp_code t \<noteq> ResponseCodeMoreBlocks \<and>
      paginated (BlockPerMessage (config (node_at True 3))) (From (request 1 5))
        (Count (request 1 5)) pages \<and>
      total_blocks pages \<le> unat (Count (request 1 5)))"
proof -
  have h1: "reads_at_most (deps_with To_last)"
    by (rule reads_at_most_deps_with)
  have h2: "accepted (request 1 5) ''bob'' (node_at True 3)"
    by (simp add: accepted_def failed_check_def example_defs)
  from pagination [OF h1 h2] h1 h2 show ?thesis by blast
qed

text \<open>
  C3. For an accepted request, with such a reader, the handler returns, and after the
  \<open>MoreBlocks\<close> pages it has sent exactly one more response, the last one: when
  \<open>msg.To()\<close> is at least the last block height it is \<open>Synced\<close> with the last
  certificate and that certificate's height, otherwise it is \<open>NoMoreBlocks\<close>.
\<close>

theorem one_terminal_response:
  assumes "reads_at_most d" and "accepted msg pid s"
  shows "\<exists>s' pages t. ParseMessage d msg pid s = Some s' \<and>
           outbound s' = outbound s @ map (Pair pid) (pages @ [t]) \<and>
           (\<forall>r \<in> set pages. resp_code r = ResponseCodeMoreBlocks) \<and>
           (LastBlockHeight (state s) \<le> To d msg \<longrightarrow>
              t = \<lparr>resp_code = ResponseCodeSynced,
                    resp_reason = code_String d ResponseCodeSynced, resp_sid = SessionID msg,
                    resp_height = Height (LastCertificate (state s)), resp_blocks = [],
                    resp_cert = Some (LastCertificate (state s))\<rparr>) \<and>
           (\<not> LastBlockHeight (state s) \<le> To d msg \<longrightarrow>
              t = \<lparr>resp_code = ResponseCodeNoMoreBlocks,
                    resp_reason = code_String d ResponseCodeNoMoreBlocks,
                    resp_sid = SessionID msg, resp_height = 0, resp_blocks = [],
                    resp_cert = None\<rparr>)"
proof -
  have fc: "failed_check msg pid s = None" using assms(2) by (simp add: accepted_def)
  let ?t = "if LastBlockHeight (state s) \<le> To d msg
            then Synced_response d (SessionID msg) (LastCertificate (state s))
            else NoMoreBlocks_response d (SessionID msg)"
  from ParseMessage_accepted_sends [OF assms(1) fc]
  obtain s' pages where run: "ParseMessage d msg pid s = Some s'"
    and ob: "outbound s' = outbound s @ map (Pair pid) (pages @ [?t])"
    and ls: "loop_sends d (config s) (state s) (SessionID msg) (From msg) (Count msg) pages"
    by blast
  have mb: "\<forall>r \<in> set pages. resp_code r = ResponseCodeMoreBlocks"
    using loop_sends_pages [OF ls] by blast
  have t1: "LastBlockHeight (state s) \<le> To d msg \<longrightarrow>
              ?t = \<lparr>resp_code = ResponseCodeSynced,
                    resp_reason = code_String d ResponseCodeSynced, resp_sid = SessionID msg,
                    resp_height = Height (LastCertificate (state s)), resp_blocks = [],
                    resp_cert = Some (LastCertificate (state s))\<rparr>"
    by (simp add: Synced_response_def)
  have t2: "\<not> LastBlockHeight (state s) \<le> To d msg \<longrightarrow>
              ?t = \<lparr>resp_code = ResponseCodeNoMoreBlocks,
                    resp_reason = code_String d ResponseCodeNoMoreBlocks,
                    resp_sid = SessionID msg, resp_height = 0, resp_blocks = [],
                    resp_cert = None\<rparr>"
    by (simp add: NoMoreBlocks_response_def)
  show ?thesis
    using run ob mb t1 t2 by blast
qed

theorem one_terminal_response_witness:
  "reads_at_most (deps_with To_last) \<and> accepted (request 1 5) ''bob'' (node_at True 3) \<and>
   (\<exists>s' pages.
      ParseMessage (deps_with To_last) (request 1 5) ''bob'' (node_at True 3) = Some s' \<and>
      outbound s' = outbound (node_at True 3) @ map (Pair ''bob'')
        (pages @ [\<lparr>resp_code = ResponseCodeSynced, resp_reason = ''synced'', resp_sid = 7,
                    resp_height = 3, resp_blocks = [],
                    resp_cert = Some \<lparr>Height = 3, cert_payload = []\<rparr>\<rparr>]))"
proof -
  have h1: "reads_at_most (deps_with To_last)"
    by (rule reads_at_most_deps_with)
  have h2: "accepted (request 1 5) ''bob'' (node_at True 3)"
    by (simp add: accepted_def failed_check_def example_defs)
  have to: "LastBlockHeight (state (node_at True 3)) \<le> To (deps_with To_last) (request 1 5)"
    by (simp add: example_defs To_last_def)
  have ev: "code_String (deps_with To_last) ResponseCodeSynced = ''synced''"
    "SessionID (request 1 5) = 7"
    "LastCertificate (state (node_at True 3)) = \<lparr>Height = 3, cert_payload = []\<rparr>"
    by (simp_all add: example_defs)
  from one_terminal_response [OF h1 h2] obtain s' pages t
    where "ParseMessage (deps_with To_last) (request 1 5) ''bob'' (node_at True 3) = Some s'"
      and "outbound s' = outbound (node_at True 3) @ map (Pair ''bob'') (pages @ [t])"
      and "LastBlockHeight (state (node_at True 3)) \<le> To (deps_with To_last) (request 1 5) \<longrightarrow>
        t = \<lparr>resp_code = ResponseCodeSynced,
              resp_reason = code_String (deps_with To_last) ResponseCodeSynced,
              resp_sid = SessionID (request 1 5),
              resp_height = Height (LastCertificate (state (node_at True 3))), resp_blocks = [],
              resp_cert = Some (LastCertificate (state (node_at True 3)))\<rparr>"
    by blast
  then show ?thesis using h1 h2 to by (auto simp add: ev)
qed

section \<open>Invariants of every response\<close>

lemma ParseMessage_sends:
  assumes "reads_at_most d"
  shows "\<exists>s' rs. ParseMessage d msg pid s = Some s' \<and>
           config s' = config s \<and> peerSet s' = peerSet s \<and> state s' = state s \<and>
           sessions s' = sessions s \<and> outbound s' = outbound s @ map (Pair pid) rs \<and>
           (\<forall>r \<in> set rs.
              resp_sid r = SessionID msg \<and>
              (resp_code r = ResponseCodeMoreBlocks \<longrightarrow> resp_blocks r \<noteq> []) \<and>
              (resp_code r = ResponseCodeSynced \<longrightarrow>
                 (\<exists>c. resp_cert r = Some c \<and> Height c = resp_height r)) \<and>
              (resp_code r = ResponseCodeRejected \<longrightarrow>
                 (\<exists>k. failed_check msg pid s = Some k \<and>
                      resp_reason r = rejection_reason d msg pid s k)))"
proof (cases "failed_check msg pid s")
  case None
  let ?t = "if LastBlockHeight (state s) \<le> To d msg
            then Synced_response d (SessionID msg) (LastCertificate (state s))
            else NoMoreBlocks_response d (SessionID msg)"
  from ParseMessage_accepted_sends [OF assms None]
  obtain s' pages where run: "ParseMessage d msg pid s = Some s'"
    and fr: "config s' = config s" "peerSet s' = peerSet s" "state s' = state s"
      "sessions s' = sessions s"
    and ob: "outbound s' = outbound s @ map (Pair pid) (pages @ [?t])"
    and ls: "loop_sends d (config s) (state s) (SessionID msg) (From msg) (Count msg) pages"
    by blast
  have "\<forall>r \<in> set (pages @ [?t]).
          resp_sid r = SessionID msg \<and>
          (resp_code r = ResponseCodeMoreBlocks \<longrightarrow> resp_blocks r \<noteq> []) \<and>
          (resp_code r = ResponseCodeSynced \<longrightarrow>
             (\<exists>c. resp_cert r = Some c \<and> Height c = resp_height r)) \<and>
          (resp_code r = ResponseCodeRejected \<longrightarrow>
             (\<exists>k. failed_check msg pid s = Some k \<and>
                  resp_reason r = rejection_reason d msg pid s k))"
    using loop_sends_pages [OF ls]
    by (auto simp add: Synced_response_def NoMoreBlocks_response_def)
  then show ?thesis using run fr ob by blast
next
  case (Some k)
  let ?r = "Rejected_response (SessionID msg) (rejection_reason d msg pid s k)"
  from ParseMessage_rejected_sends [OF Some, of d]
  obtain s' where run: "ParseMessage d msg pid s = Some s'"
    and fr: "config s' = config s" "peerSet s' = peerSet s" "state s' = state s"
      "sessions s' = sessions s"
    and ob: "outbound s' = outbound s @ map (Pair pid) [?r]"
    by auto
  have "\<forall>r \<in> set [?r].
          resp_sid r = SessionID msg \<and>
          (resp_code r = ResponseCodeMoreBlocks \<longrightarrow> resp_blocks r \<noteq> []) \<and>
          (resp_code r = ResponseCodeSynced \<longrightarrow>
             (\<exists>c. resp_cert r = Some c \<and> Height c = resp_height r)) \<and>
          (resp_code r = ResponseCodeRejected \<longrightarrow>
             (\<exists>k. failed_check msg pid s = Some k \<and>
                  resp_reason r = rejection_reason d msg pid s k))"
    using Some by (simp add: Rejected_response_def)
  then show ?thesis using run fr ob by blast
qed

lemma ParseMessage_partial:
  assumes "ParseMessage d msg pid s = Some s'"
  shows "config s' = config s \<and> peerSet s' = peerSet s \<and> state s' = state s \<and>
         sessions s' = sessions s \<and>
         (\<exists>rs. outbound s' = outbound s @ map (Pair pid) rs \<and>
            (\<forall>r \<in> set rs.
               resp_sid r = SessionID msg \<and>
               (resp_code r = ResponseCodeMoreBlocks \<longrightarrow> resp_blocks r \<noteq> []) \<and>
               (resp_code r = ResponseCodeSynced \<longrightarrow>
                  (\<exists>c. resp_cert r = Some c \<and> Height c = resp_height r))))"
proof (cases "failed_check msg pid s")
  case (Some k)
  let ?r = "Rejected_response (SessionID msg) (rejection_reason d msg pid s k)"
  have "s' = respond ?r pid (log_line Trace ''parsing BlocksRequest message'' s)"
    using assms by (simp add: ParseMessage_rejected [OF Some])
  then have "config s' = config s" "peerSet s' = peerSet s" "state s' = state s"
    "sessions s' = sessions s" "outbound s' = outbound s @ map (Pair pid) [?r]"
    by simp_all
  moreover have "\<forall>r \<in> set [?r].
       resp_sid r = SessionID msg \<and>
       (resp_code r = ResponseCodeMoreBlocks \<longrightarrow> resp_blocks r \<noteq> []) \<and>
       (resp_code r = ResponseCodeSynced \<longrightarrow>
          (\<exists>c. resp_cert r = Some c \<and> Height c = resp_height r))"
    by (simp add: Rejected_response_def)
  ultimately show ?thesis by blast
next
  case None
  let ?s = "log_line Trace ''parsing BlocksRequest message'' s"
  let ?t = "if LastBlockHeight (state s) \<le> To d msg
            then Synced_response d (SessionID msg) (LastCertificate (state s))
            else NoMoreBlocks_response d (SessionID msg)"
  from assms obtain s1 where run: "sendBlocks d msg pid (From msg) (Count msg) ?s = Some s1"
    by (auto simp add: ParseMessage_passes [OF None] split: option.splits)
  from sendBlocks_partial [OF run]
  obtain pages where fr: "config s1 = config s" "peerSet s1 = peerSet s" "state s1 = state s"
      "sessions s1 = sessions s"
    and ob: "outbound s1 = outbound s @ map (Pair pid) pages"
    and al: "\<forall>r \<in> set pages. resp_code r = ResponseCodeMoreBlocks \<and>
               resp_sid r = SessionID msg \<and> resp_blocks r \<noteq> []"
    unfolding pages_only_def by auto
  have "ParseMessage d msg pid s = Some (respond ?t pid s1)"
    by (simp add: ParseMessage_passes [OF None] run fr)
  with assms have "s' = respond ?t pid s1" by simp
  then have "config s' = config s" "peerSet s' = peerSet s" "state s' = state s"
    "sessions s' = sessions s" "outbound s' = outbound s @ map (Pair pid) (pages @ [?t])"
    using fr ob by simp_all
  moreover have "\<forall>r \<in> set (pages @ [?t]).
       resp_sid r = SessionID msg \<and>
       (resp_code r = ResponseCodeMoreBlocks \<longrightarrow> resp_blocks r \<noteq> []) \<and>
       (resp_code r = ResponseCodeSynced \<longrightarrow>
          (\<exists>c. resp_cert r = Some c \<and> Height c = resp_height r))"
    using al by (auto simp add: Synced_response_def NoMoreBlocks_response_def)
  ultimately show ?thesis by blast
qed

lemma ParseMessage_returns:
  assumes "reads_at_most d"
  shows "\<exists>s'. ParseMessage d msg pid s = Some s'"
  using ParseMessage_sends [OF assms, of msg pid s] by blast

text \<open>
  C4. Whenever the handler returns, every \<open>MoreBlocks\<close> response it has sent carries
  at least one block and every \<open>Synced\<close> response it has sent carries a certificate
  whose height is the starting height the response reports. It returns whenever the
  reader returns at most the number of blocks it is asked for.
\<close>

theorem response_invariants:
  "(reads_at_most d \<longrightarrow> (\<exists>s'. ParseMessage d msg pid s = Some s')) \<and>
   (\<forall>s'. ParseMessage d msg pid s = Some s' \<longrightarrow>
      (\<exists>rs. outbound s' = outbound s @ map (Pair pid) rs \<and>
         (\<forall>r \<in> set rs.
            (resp_code r = ResponseCodeMoreBlocks \<longrightarrow> resp_blocks r \<noteq> []) \<and>
            (resp_code r = ResponseCodeSynced \<longrightarrow>
               (\<exists>c. resp_cert r = Some c \<and> Height c = resp_height r)))))"
proof (intro conjI impI allI)
  assume "reads_at_most d"
  then show "\<exists>s'. ParseMessage d msg pid s = Some s'" by (rule ParseMessage_returns)
next
  fix s'
  assume "ParseMessage d msg pid s = Some s'"
  from ParseMessage_partial [OF this]
  show "\<exists>rs. outbound s' = outbound s @ map (Pair pid) rs \<and>
         (\<forall>r \<in> set rs.
            (resp_code r = ResponseCodeMoreBlocks \<longrightarrow> resp_blocks r \<noteq> []) \<and>
            (resp_code r = ResponseCodeSynced \<longrightarrow>
               (\<exists>c. resp_cert r = Some c \<and> Height c = resp_height r)))"
    by blast
qed

theorem response_invariants_witness:
  "reads_at_most (deps_with To_end) \<and>
   map_option outbound (ParseMessage (deps_with To_end) (request 2 2) ''bob'' (node_at True 3)) =
     Some [(''bob'', \<lparr>resp_code = ResponseCodeMoreBlocks, resp_reason = ''more-blocks'',
              resp_sid = 7, resp_height = 2, resp_blocks = [[2], [3]], resp_cert = None\<rparr>),
           (''bob'', \<lparr>resp_code = ResponseCodeSynced, resp_reason = ''synced'',
              resp_sid = 7, resp_height = 3, resp_blocks = [],
              resp_cert = Some \<lparr>Height = 3, cert_payload = []\<rparr>\<rparr>)] \<and>
   (\<exists>s' rs. ParseMessage (deps_with To_end) (request 2 2) ''bob'' (node_at True 3) = Some s' \<and>
      outbound s' = outbound (node_at True 3) @ map (Pair ''bob'') rs)"
proof -
  have h: "reads_at_most (deps_with To_end)"
    by (rule reads_at_most_deps_with)
  have run: "map_option outbound
      (ParseMessage (deps_with To_end) (request 2 2) ''bob'' (node_at True 3)) =
     Some [(''bob'', \<lparr>resp_code = ResponseCodeMoreBlocks, resp_reason = ''more-blocks'',
              resp_sid = 7, resp_height = 2, resp_blocks = [[2], [3]], resp_cert = None\<rparr>),
           (''bob'', \<lparr>resp_code = ResponseCodeSynced, resp_reason = ''synced'',
              resp_sid = 7, resp_height = 3, resp_blocks = [],
              resp_cert = Some \<lparr>Height = 3, cert_payload = []\<rparr>\<rparr>)]"
    by (simp add: handler_defs example_defs sendBlocks.simps read_blocks.simps To_end_def)
  from response_invariants [of "deps_with To_end" "request 2 2" "''bob''" "node_at True 3"] h run
  show ?thesis by blast
qed

text \<open>
  C10. Whenever the handler returns, every response it has sent for a request, whatever
  its code, carries the session id of that request. It returns whenever the reader
  returns at most the number of blocks it is asked for.
\<close>

theorem session_id_preserved:
  "(reads_at_most d \<longrightarrow> (\<exists>s'. ParseMessage d msg pid s = Some s')) \<and>
   (\<forall>s'. ParseMessage d msg pid s = Some s' \<longrightarrow>
      (\<exists>rs. outbound s' = outbound s @ map (Pair pid) rs \<and>
         (\<forall>r \<in> set rs. resp_sid r = SessionID msg)))"
proof (intro conjI impI allI)
  assume "reads_at_most d"
  then show "\<exists>s'. ParseMessage d msg pid s = Some s'" by (rule ParseMessage_returns)
next
  fix s'
  assume "ParseMessage d msg pid s = Some s'"
  from ParseMessage_partial [OF this]
  show "\<exists>rs. outbound s' = outbound s @ map (Pair pid) rs \<and>
         (\<forall>r \<in> set rs. resp_sid r = SessionID msg)"
    by blast
qed

theorem session_id_preserved_witness:
  "reads_at_most (deps_with To_last) \<and>
   map_option (map (\<lambda>(p, r). resp_sid r) \<circ> outbound)
     (ParseMessage (deps_with To_last) (request 2 1) ''bob'' (node_at True 3)) = Some [7, 7] \<and>
   (\<exists>s' rs. ParseMessage (deps_with To_last) (request 2 1) ''bob'' (node_at True 3) = Some s' \<and>
      outbound s' = outbound (node_at True 3) @ map (Pair ''bob'') rs)"
proof -
  have h: "reads_at_most (deps_with To_last)"
    by (rule reads_at_most_deps_with)
  have run: "map_option (map (\<lambda>(p, r). resp_sid r) \<circ> outbound)
     (ParseMessage (deps_with To_last) (request 2 1) ''bob'' (node_at True 3)) = Some [7, 7]"
    by (simp add: handler_defs example_defs sendBlocks.simps read_blocks.simps To_last_def)
  from session_id_preserved [of "deps_with To_last" "request 2 1" "''bob''" "node_at True 3"] h run
  show ?thesis by blast
qed

text \<open>
  C8. Whenever the handler returns, the synchronizer it leaves has the configuration,
  the peer set, the state facade and the session table it started with; the outbound
  messages are the earlier ones followed by responses to the requesting peer. It
  returns whenever the reader returns at most the number of blocks it is asked for.
\<close>

theorem handler_frame:
  "(reads_at_most d \<longrightarrow> (\<exists>s'. ParseMessage d msg pid s = Some s')) \<and>
   (\<forall>s'. ParseMessage d msg pid s = Some s' \<longrightarrow>
      config s' = config s \<and> peerSet s' = peerSet s \<and> state s' = state s \<and>
      sessions s' = sessions s \<and>
      (\<exists>rs. outbound s' = outbound s @ map (Pair pid) rs))"
proof (intro conjI impI allI)
  assume "reads_at_most d"
  then show "\<exists>s'. ParseMessage d msg pid s = Some s'" by (rule ParseMessage_returns)
next
  fix s'
  assume run: "ParseMessage d msg pid s = Some s'"
  show "config s' = config s" using ParseMessage_partial [OF run] by blast
  show "peerSet s' = peerSet s" using ParseMessage_partial [OF run] by blast
  show "state s' = state s" using ParseMessage_partial [OF run] by blast
  show "sessions s' = sessions s" using ParseMessage_partial [OF run] by blast
  show "\<exists>rs. outbound s' = outbound s @ map (Pair pid) rs"
    using ParseMessage_partial [OF run] by blast
qed

theorem handler_frame_witness:
  "reads_at_most (deps_with To_last) \<and>
   (\<exists>s'. ParseMessage (deps_with To_last) (request 1 3) ''bob'' (node_at False 3) = Some s' \<and>
      peerSet s' = peerSet (node_at False 3) \<and> sessions s' = sessions (node_at False 3) \<and>
      state s' = state (node_at False 3) \<and> config s' = config (node_at False 3))"
proof -
  have h: "reads_at_most (deps_with To_last)"
    by (rule reads_at_most_deps_with)
  from handler_frame [of "deps_with To_last" "request 1 3" "''bob''" "node_at False 3"] h
  show ?thesis by blast
qed

section \<open>Boundary requests\<close>

text \<open>
  C6 (amended). For an accepted request whose \<open>from\<close> is the last block height and
  whose \<open>msg.To()\<close> is at least that height, with a reader that returns at most the number
  of blocks it is asked for, the last response is \<open>Synced\<close> with the last certificate.
  The \<open>MoreBlocks\<close> pages of the loop come before it: there is none exactly when the
  first read, at the tip, returns no block.
\<close>

theorem request_at_tip:
  assumes "reads_at_most d" and "accepted msg pid s"
    and "From msg = LastBlockHeight (state s)"
    and "LastBlockHeight (state s) \<le> To d msg"
  shows "\<exists>s' pages. ParseMessage d msg pid s = Some s' \<and>
           outbound s' = outbound s @ map (Pair pid)
             (pages @ [\<lparr>resp_code = ResponseCodeSynced,
                         resp_reason = code_String d ResponseCodeSynced,
                         resp_sid = SessionID msg,
                         resp_height = Height (LastCertificate (state s)), resp_blocks = [],
                         resp_cert = Some (LastCertificate (state s))\<rparr>]) \<and>
           (\<forall>r \<in> set pages. resp_code r = ResponseCodeMoreBlocks) \<and>
           (pages = [] \<longleftrightarrow>
              prepareBlocks d (state s) (LastBlockHeight (state s))
                (min (BlockPerMessage (config s)) (Count msg)) = [])"
proof -
  have fc: "failed_check msg pid s = None" using assms(2) by (simp add: accepted_def)
  from ParseMessage_accepted_sends [OF assms(1) fc]
  obtain s' pages where run: "ParseMessage d msg pid s = Some s'"
    and ob: "outbound s' = outbound s @ map (Pair pid)
        (pages @ [Synced_response d (SessionID msg) (LastCertificate (state s))])"
    and ls: "loop_sends d (config s) (state s) (SessionID msg) (From msg) (Count msg) pages"
    using assms(4) by auto
  have mb: "\<forall>r \<in> set pages. resp_code r = ResponseCodeMoreBlocks"
    using loop_sends_pages [OF ls] by blast
  have em: "pages = [] \<longleftrightarrow>
      prepareBlocks d (state s) (LastBlockHeight (state s))
        (min (BlockPerMessage (config s)) (Count msg)) = []"
    using ls assms(3) by (cases pages) (simp_all add: Let_def)
  show ?thesis
    using run ob mb em unfolding Synced_response_def by blast
qed

theorem request_at_tip_witness:
  "reads_at_most (deps_with To_last) \<and> accepted (request 3 1) ''bob'' (node_at True 3) \<and>
   From (request 3 1) = LastBlockHeight (state (node_at True 3)) \<and>
   LastBlockHeight (state (node_at True 3)) \<le> To (deps_with To_last) (request 3 1) \<and>
   (\<exists>s' pages. ParseMessage (deps_with To_last) (request 3 1) ''bob'' (node_at True 3) = Some s' \<and>
      outbound s' = outbound (node_at True 3) @ map (Pair ''bob'')
        (pages @ [\<lparr>resp_code = ResponseCodeSynced,
                    resp_reason = code_String (deps_with To_last) ResponseCodeSynced,
                    resp_sid = SessionID (request 3 1),
                    resp_height = Height (LastCertificate (state (node_at True 3))),
                    resp_blocks = [],
                    resp_cert = Some (LastCertificate (state (node_at True 3)))\<rparr>]))"
proof -
  have h1: "reads_at_most (deps_with To_last)"
    by (rule reads_at_most_deps_with)
  have h2: "accepted (request 3 1) ''bob'' (node_at True 3)"
    by (simp add: accepted_def failed_check_def example_defs)
  have h3: "From (request 3 1) = LastBlockHeight (state (node_at True 3))"
    by (simp add: example_defs)
  have h4: "LastBlockHeight (state (node_at True 3)) \<le> To (deps_with To_last) (request 3 1)"
    by (simp add: example_defs To_last_def)
  from request_at_tip [OF h1 h2 h3 h4] h1 h2 h3 h4 show ?thesis by blast
qed

text \<open>
  C6 as stated fails. A node at height 3 that is asked for one block from height 3
  sends the block of height 3 in a \<open>MoreBlocks\<close> response before the \<open>Synced\<close> response,
  whichever of the two formulas \<open>msg.To()\<close> follows.
\<close>

theorem request_at_tip_counterexample:
  "accepted (request 3 1) ''bob'' (node_at True 3) \<and>
   From (request 3 1) = LastBlockHeight (state (node_at True 3)) \<and>
   map_option outbound (ParseMessage (deps_with To_last) (request 3 1) ''bob'' (node_at True 3)) =
     Some [(''bob'', \<lparr>resp_code = ResponseCodeMoreBlocks, resp_reason = ''more-blocks'',
              resp_sid = 7, resp_height = 3, resp_blocks = [[3]], resp_cert = None\<rparr>),
           (''bob'', \<lparr>resp_code = ResponseCodeSynced, resp_reason = ''synced'',
              resp_sid = 7, resp_height = 3, resp_blocks = [],
              resp_cert = Some \<lparr>Height = 3, cert_payload = []\<rparr>\<rparr>)] \<and>
   map_option outbound (ParseMessage (deps_with To_end) (request 3 1) ''bob'' (node_at True 3)) =
     Some [(''bob'', \<lparr>resp_code = ResponseCodeMoreBlocks, resp_reason = ''more-blocks'',
              resp_sid = 7, resp_height = 3, resp_blocks = [[3]], resp_cert = None\<rparr>),
           (''bob'', \<lparr>resp_code = ResponseCodeSynced, resp_reason = ''synced'',
              resp_sid = 7, resp_height = 3, resp_blocks = [],
              resp_cert = Some \<lparr>Height = 3, cert_payload = []\<rparr>\<rparr>)]"
proof -
  have "accepted (request 3 1) ''bob'' (node_at True 3)"
    by (simp add: accepted_def failed_check_def example_defs)
  moreover have "From (request 3 1) = LastBlockHeight (state (node_at True 3))"
    by (simp add: example_defs)
  moreover have
    "map_option outbound (ParseMessage (deps_with To_last) (request 3 1) ''bob'' (node_at True 3)) =
     Some [(''bob'', \<lparr>resp_code = ResponseCodeMoreBlocks, resp_reason = ''more-blocks'',
              resp_sid = 7, resp_height = 3, resp_blocks = [[3]], resp_cert = None\<rparr>),
           (''bob'', \<lparr>resp_code = ResponseCodeSynced, resp_reason = ''synced'',
              resp_sid = 7, resp_height = 3, resp_blocks = [],
              resp_cert = Some \<lparr>Height = 3, cert_payload = []\<rparr>\<rparr>)]"
    by (simp add: handler_defs example_defs sendBlocks.simps read_blocks.simps To_last_def)
  moreover have
    "map_option outbound (ParseMessage (deps_with To_end) (request 3 1) ''bob'' (node_at True 3)) =
     Some [(''bob'', \<lparr>resp_code = ResponseCodeMoreBlocks, resp_reason = ''more-blocks'',
              resp_sid = 7, resp_height = 3, resp_blocks = [[3]], resp_cert = None\<rparr>),
           (''bob'', \<lparr>resp_code = ResponseCodeSynced, resp_reason = ''synced'',
              resp_sid = 7, resp_height = 3, resp_blocks = [],
              resp_cert = Some \<lparr>Height = 3, cert_payload = []\<rparr>\<rparr>)]"
    by (simp add: handler_defs example_defs sendBlocks.simps read_blocks.simps To_end_def)
  ultimately show ?thesis by blast
qed

text \<open>
  C7 (amended). For an accepted request with \<open>count = 0\<close>, with a reader that returns at
  most the number of blocks it is asked for, the handler sends no \<open>MoreBlocks\<close> response
  and exactly one response: \<open>NoMoreBlocks\<close> when \<open>msg.To()\<close> is below the last block
  height, and \<open>Synced\<close> with the last certificate otherwise.
\<close>

theorem zero_count:
  assumes "reads_at_most d" and "accepted msg pid s" and "Count msg = 0"
  shows "\<exists>s'. ParseMessage d msg pid s = Some s' \<and>
           outbound s' = outbound s @
             [(pid, if To d msg < LastBlockHeight (state s)
                    then \<lparr>resp_code = ResponseCodeNoMoreBlocks,
                           resp_reason = code_String d ResponseCodeNoMoreBlocks,
                           resp_sid = SessionID msg, resp_height = 0, resp_blocks = [],
                           resp_cert = None\<rparr>
                    else \<lparr>resp_code = ResponseCodeSynced,
                           resp_reason = code_String d ResponseCodeSynced,
                           resp_sid = SessionID msg,
                           resp_height = Height (LastCertificate (state s)), resp_blocks = [],
                           resp_cert = Some (LastCertificate (state s))\<rparr>)]"
proof -
  have fc: "failed_check msg pid s = None" using assms(2) by (simp add: accepted_def)
  let ?t = "if LastBlockHeight (state s) \<le> To d msg
            then Synced_response d (SessionID msg) (LastCertificate (state s))
            else NoMoreBlocks_response d (SessionID msg)"
  from ParseMessage_accepted_sends [OF assms(1) fc]
  obtain s' pages where run: "ParseMessage d msg pid s = Some s'"
    and ob: "outbound s' = outbound s @ map (Pair pid) (pages @ [?t])"
    and ls: "loop_sends d (config s) (state s) (SessionID msg) (From msg) (Count msg) pages"
    by blast
  have "length (prepareBlocks d (state s) (From msg) (min (BlockPerMessage (config s)) 0)) \<le> unat (0 :: uint32)"
    using read_fits(2) [OF assms(1)] .
  then have "prepareBlocks d (state s) (From msg) (min (BlockPerMessage (config s)) 0) = []"
    by simp
  then have "pages = []"
    using ls assms(3) by (cases pages) (simp_all add: Let_def)
  then have "outbound s' = outbound s @ [(pid, ?t)]" using ob by simp
  then show ?thesis using run
    by (auto simp add: Synced_response_def NoMoreBlocks_response_def not_less)
qed

theorem zero_count_witness:
  "reads_at_most (deps_with To_last) \<and> accepted (request 2 0) ''bob'' (node_at True 3) \<and>
   Count (request 2 0) = 0 \<and>
   map_option outbound (ParseMessage (deps_with To_last) (request 2 0) ''bob'' (node_at True 3)) =
     Some [(''bob'', \<lparr>resp_code = ResponseCodeNoMoreBlocks, resp_reason = ''no-more-blocks'',
              resp_sid = 7, resp_height = 0, resp_blocks = [], resp_cert = None\<rparr>)]"
proof -
  have h1: "reads_at_most (deps_with To_last)"
    by (rule reads_at_most_deps_with)
  have h2: "accepted (request 2 0) ''bob'' (node_at True 3)"
    by (simp add: accepted_def failed_check_def example_defs)
  have h3: "Count (request 2 0) = 0"
    by (simp add: example_defs)
  have to: "To (deps_with To_last) (request 2 0) < LastBlockHeight (state (node_at True 3))"
    by (simp add: example_defs To_last_def)
  from zero_count [OF h1 h2 h3] to h1 h2 h3 show ?thesis
    by (auto simp add: example_defs)
qed

text \<open>
  C7 as stated fails under either formula of \<open>msg.To()\<close>. With \<open>from + count - 1\<close>, the
  request \<open>from = 0, count = 0\<close> has \<open>To() = 4294967295\<close>; with \<open>from + count\<close>, the request
  \<open>from = 3, count = 0\<close> to a node at height 3 has \<open>To() = 3\<close>. Both are accepted and
  answered by \<open>Synced\<close>, not by \<open>NoMoreBlocks\<close>.
\<close>

theorem zero_count_counterexample:
  "accepted (request 0 0) ''bob'' (node_at True 3) \<and>
   map_option outbound (ParseMessage (deps_with To_last) (request 0 0) ''bob'' (node_at True 3)) =
     Some [(''bob'', \<lparr>resp_code = ResponseCodeSynced, resp_reason = ''synced'',
              resp_sid = 7, resp_height = 3, resp_blocks = [],
              resp_cert = Some \<lparr>Height = 3, cert_payload = []\<rparr>\<rparr>)] \<and>
   accepted (request 3 0) ''bob'' (node_at True 3) \<and>
   map_option outbound (ParseMessage (deps_with To_end) (request 3 0) ''bob'' (node_at True 3)) =
     Some [(''bob'', \<lparr>resp_code = ResponseCodeSynced, resp_reason = ''synced'',
              resp_sid = 7, resp_height = 3, resp_blocks = [],
              resp_cert = Some \<lparr>Height = 3, cert_payload = []\<rparr>\<rparr>)]"
proof -
  have "accepted (request 0 0) ''bob'' (node_at True 3)"
    by (simp add: accepted_def failed_check_def example_defs)
  moreover have
    "map_option outbound (ParseMessage (deps_with To_last) (request 0 0) ''bob'' (node_at True 3)) =
     Some [(''bob'', \<lparr>resp_code = ResponseCodeSynced, resp_reason = ''synced'',
              resp_sid = 7, resp_height = 3, resp_blocks = [],
              resp_cert = Some \<lparr>Height = 3, cert_payload = []\<rparr>\<rparr>)]"
    by (simp add: handler_defs example_defs sendBlocks.simps read_blocks.simps To_last_def)
  moreover have "accepted (request 3 0) ''bob'' (node_at True 3)"
    by (simp add: accepted_def failed_check_def example_defs)
  moreover have
    "map_option outbound (ParseMessage (deps_with To_end) (request 3 0) ''bob'' (node_at True 3)) =
     Some [(''bob'', \<lparr>resp_code = ResponseCodeSynced, resp_reason = ''synced'',
              resp_sid = 7, resp_height = 3, resp_blocks = [],
              resp_cert = Some \<lparr>Height = 3, cert_payload = []\<rparr>\<rparr>)]"
    by (simp add: handler_defs example_defs sendBlocks.simps read_blocks.simps To_end_def)
  ultimately show ?thesis by blast
qed

section \<open>The guard of the height window\<close>

text \<open>
  C9. On a non-archival node whose last block height is at most \<open>LatestBlockInterval\<close>
  the height-window check is false for every request, so the handler, which returns,
  has sent no \<open>Rejected\<close> response with the height-window reason. With a subtraction
  that traps on underflow the check gives the same answer for every configuration,
  height and request: the guard keeps the subtraction away from an underflow.
\<close>

theorem window_check_skipped:
  assumes "reads_at_most d" and "\<not> NodeNetwork (config s)"
    and "LastBlockHeight (state s) \<le> LatestBlockInterval (config s)"
  shows "\<not> height_not_acceptable (config s) (LastBlockHeight (state s)) msg \<and>
         (\<exists>s' rs. ParseMessage d msg pid s = Some s' \<and>
            outbound s' = outbound s @ map (Pair pid) rs \<and>
            (\<forall>r \<in> set rs. resp_code r = ResponseCodeRejected \<longrightarrow>
               \<not> prefix ''the request height is not acceptable'' (resp_reason r))) \<and>
         height_not_acceptable_checked cfg h m = Some (height_not_acceptable cfg h m)"
proof -
  have le: "unat (LastBlockHeight (state s)) \<le> unat (LatestBlockInterval (config s))"
    using assms(3) by (simp add: word_le_nat_alt)
  then have off: "\<not> height_not_acceptable (config s) (LastBlockHeight (state s)) msg"
    by (simp add: height_not_acceptable_iff)
  have nk: "failed_check msg pid s \<noteq> Some HeightWindow"
    using le by (auto simp add: failed_check_def Let_def)
  from ParseMessage_sends [OF assms(1), of msg pid s]
  obtain s' rs where run: "ParseMessage d msg pid s = Some s'"
    and ob: "outbound s' = outbound s @ map (Pair pid) rs"
    and rj: "\<forall>r \<in> set rs. resp_code r = ResponseCodeRejected \<longrightarrow>
               (\<exists>k. failed_check msg pid s = Some k \<and>
                    resp_reason r = rejection_reason d msg pid s k)"
    by blast
  have "\<not> prefix ''the request height is not acceptable'' (rejection_reason d msg pid s k)"
    if "k \<noteq> HeightWindow" for k
    using that by (cases k) simp_all
  with rj nk have "\<forall>r \<in> set rs. resp_code r = ResponseCodeRejected \<longrightarrow>
      \<not> prefix ''the request height is not acceptable'' (resp_reason r)"
    by metis
  moreover have "height_not_acceptable_checked cfg h m = Some (height_not_acceptable cfg h m)"
    by (auto simp add: height_not_acceptable_checked_def height_not_acceptable_def checked_sub_def)
  ultimately show ?thesis using off run ob by blast
qed

theorem window_check_skipped_witness:
  "reads_at_most (deps_with To_last) \<and> \<not> NodeNetwork (config (node_at False 3)) \<and>
   LastBlockHeight (state (node_at False 3)) \<le> LatestBlockInterval (config (node_at False 3)) \<and>
   \<not> height_not_acceptable (config (node_at False 3)) (LastBlockHeight (state (node_at False 3)))
       (request 1 2) \<and>
   map_option outbound (ParseMessage (deps_with To_last) (request 1 2) ''bob'' (node_at False 3)) =
     Some [(''bob'', \<lparr>resp_code = ResponseCodeMoreBlocks, resp_reason = ''more-blocks'',
              resp_sid = 7, resp_height = 1, resp_blocks = [[1], [2]], resp_cert = None\<rparr>),
           (''bob'', \<lparr>resp_code = ResponseCodeNoMoreBlocks, resp_reason = ''no-more-blocks'',
              resp_sid = 7, resp_height = 0, resp_blocks = [], resp_cert = None\<rparr>)]"
proof -
  have h1: "reads_at_most (deps_with To_last)"
    by (rule reads_at_most_deps_with)
  have h2: "\<not> NodeNetwork (config (node_at False 3))"
    by (simp add: example_defs)
  have h3: "LastBlockHeight (state (node_at False 3)) \<le> LatestBlockInterval (config (node_at False 3))"
    by (simp add: example_defs)
  have run: "map_option outbound
      (ParseMessage (deps_with To_last) (request 1 2) ''bob'' (node_at False 3)) =
     Some [(''bob'', \<lparr>resp_code = ResponseCodeMoreBlocks, resp_reason = ''more-blocks'',
              resp_sid = 7, resp_height = 1, resp_blocks = [[1], [2]], resp_cert = None\<rparr>),
           (''bob'', \<lparr>resp_code = ResponseCodeNoMoreBlocks, resp_reason = ''no-more-blocks'',
              resp_sid = 7, resp_height = 0, resp_blocks = [], resp_cert = None\<rparr>)]"
    by (simp add: handler_defs example_defs sendBlocks.simps read_blocks.simps To_last_def)
  from window_check_skipped [OF h1 h2 h3, of "request 1 2" "''bob''"] h1 h2 h3 run
  show ?thesis by blast
qed

end
